theory Spec2Isabelle
  imports Complex_Main "HOL-Library.Word"
begin

unbundle bit_operations_syntax

section \<open>Values of the host language\<close>

text \<open>
  The JavaScript values the program handles. \<open>JSON.parse\<close> yields \<open>null\<close>, booleans,
  strings, arrays, objects and numbers, which are doubles: \<open>JNum\<close> holds a finite one
  (too small a literal parses to 0), \<open>JInf\<close> the infinity a literal beyond the range
  parses to (\<open>True\<close>: the negative one). A caller can also pass a \<open>BigInt\<close>, which
  \<open>JSON.stringify\<close> refuses. An object is an association list in insertion order; the
  first binding of a key is the property. A JavaScript value that may be \<open>undefined\<close>
  is a \<open>json option\<close>, a string that may be \<open>undefined\<close> or \<open>null\<close> a
  \<open>string option\<close>. Strings are byte lists holding UTF-8 text.
\<close>

datatype json =
    JNull
  | JBool bool
  | JNum rat
  | JInf bool
  | JBigInt int
  | JStr string
  | JArr "json list"
  | JObj "(string \<times> json) list"

text \<open>
  The errors the platform raises in the operations of the program: the read of a property
  of \<open>null\<close> (a \<open>TypeError\<close>), \<open>JSON.stringify\<close> of a value that holds a
  \<open>BigInt\<close> (a \<open>TypeError\<close>), and \<open>new Response(body, {status})\<close> with a status
  outside 200 to 599 (a \<open>RangeError\<close>) or with a body and a null-body status (a
  \<open>TypeError\<close>).
\<close>

datatype platform_error =
  NullRead string | NotSerialisable | StatusOutOfRange nat | NullBodyStatus nat

text \<open>
  What a \<open>catch (e)\<close> receives: an \<open>Error\<close> object with its \<open>message\<close>, any other
  thrown value with its \<open>String(e)\<close> rendering, or an error of the platform, an
  \<open>Error\<close> object whose message is the platform's.
\<close>

datatype thrown = ErrorObject string | NonError string | PlatformError platform_error

text \<open>Truthiness, as \<open>!x\<close>, \<open>x && y\<close>, \<open>x || y\<close> and \<open>if (x)\<close> test it.\<close>

fun truthy_json :: "json \<Rightarrow> bool" where
  "truthy_json JNull = False"
| "truthy_json (JBool b) = b"
| "truthy_json (JNum n) = (n \<noteq> 0)"
| "truthy_json (JInf b) = True"
| "truthy_json (JBigInt n) = (n \<noteq> 0)"
| "truthy_json (JStr s) = (s \<noteq> [])"
| "truthy_json (JArr xs) = True"
| "truthy_json (JObj kvs) = True"

fun truthy :: "json option \<Rightarrow> bool" where
  "truthy None = False"
| "truthy (Some v) = truthy_json v"

fun truthy_str :: "string option \<Rightarrow> bool" where
  "truthy_str None = False"
| "truthy_str (Some s) = (s \<noteq> [])"

text \<open>\<open>typeof v === "object"\<close>: objects, arrays and \<open>null\<close>.\<close>

fun typeof_object :: "json option \<Rightarrow> bool" where
  "typeof_object (Some JNull) = True"
| "typeof_object (Some (JArr xs)) = True"
| "typeof_object (Some (JObj kvs)) = True"
| "typeof_object v = False"

text \<open>
  The property read \<open>v.k\<close> for the keys the program reads (\<open>error\<close>, \<open>message\<close>): on
  \<open>null\<close> it throws a \<open>TypeError\<close>, on an object it is the property or \<open>undefined\<close>,
  on every other value \<open>undefined\<close>.
\<close>

fun get_prop :: "json \<Rightarrow> string \<Rightarrow> thrown + json option" where
  "get_prop JNull k = Inl (PlatformError (NullRead k))"
| "get_prop (JObj kvs) k = Inr (map_of kvs k)"
| "get_prop v k = Inr None"

text \<open>
  \<open>JSON.stringify\<close> throws on a value that holds a \<open>BigInt\<close>; in its text an
  infinity is written \<open>null\<close>, so that is the value the text denotes.
\<close>

fun serialisable :: "json \<Rightarrow> bool" where
  "serialisable (JBigInt n) = False"
| "serialisable (JArr xs) = list_all serialisable xs"
| "serialisable (JObj kvs) = list_all (\<lambda>kv. serialisable (snd kv)) kvs"
| "serialisable v = True"

fun as_json :: "json \<Rightarrow> json" where
  "as_json (JInf b) = JNull"
| "as_json (JArr xs) = JArr (map as_json xs)"
| "as_json (JObj kvs) = JObj (map (\<lambda>kv. (fst kv, as_json (snd kv))) kvs)"
| "as_json v = v"

section \<open>Requests and responses\<close>

record request =
  req_method :: string
  req_url :: string
  req_headers :: "(string \<times> string) list"
  req_body :: "json option"

text \<open>
  A request body is held as the value handed to \<open>JSON.stringify\<close>, whose text is sent
  (\<open>None\<close>: no body). A response body is either a JSON text, for which \<open>json()\<close>
  resolves to the value, or a text that is not JSON, for which \<open>json()\<close> rejects.
\<close>

datatype body = JsonBody json | RawBody string

record http_response =
  status :: nat
  statusText :: string
  resp_headers :: "(string \<times> string) list"
  resp_body :: body

definition ok :: "http_response \<Rightarrow> bool" where
  "ok r = (200 \<le> status r \<and> status r \<le> 299)"

record result =
  response :: "http_response option"
  error :: "http_response option"

section \<open>Collaborators and environment\<close>

record auth =
  accessToken :: "string option"
  accountId :: "string option"

record tokens =
  access_token :: string
  account_id :: "string option"

record ReasoningParam =
  effort :: "string option"
  summary :: "string option"

record options =
  model :: string
  inputItems :: "json list"
  instructions :: "string option"
  tools :: "json list option"
  toolChoice :: "json option"
  parallelToolCalls :: "bool option"
  reasoningParam :: "ReasoningParam option"
  ollamaPath :: "string option"
  ollamaPayload :: "json option"

text \<open>
  Everything \<open>startUpstreamRequest\<close> consumes from other modules and the platform: the
  two functions of \<open>auth_kv\<close> with the outcome of their call (a value or a rejection),
  \<open>normalizeModelName\<close> of \<open>utils\<close> with its value and with what it throws when it
  does not return, the text \<open>JSON.stringify\<close> gives for a value it accepts, \<open>fetch\<close>,
  the platform's error messages, and the fields of \<open>env\<close>. \<open>fetch\<close> answers from the
  requests issued so far and the request at hand, so two sends of one request may differ.
\<close>

record world =
  getRefreshedAuth :: "thrown + auth"
  refreshAccessToken :: "thrown + tokens option"
  normalizeModelName :: "string \<Rightarrow> string option \<Rightarrow> string"
  normalizeModelName_throws :: "string \<Rightarrow> string option \<Rightarrow> thrown option"
  stringify :: "json \<Rightarrow> string"
  transport :: "request list \<Rightarrow> request \<Rightarrow> thrown + http_response"
  error_message :: "platform_error \<Rightarrow> string"
  CHATGPT_RESPONSES_URL :: string
  OLLAMA_API_URL :: string
  DEBUG_MODEL :: "string option"
  OPENAI_CODEX_AUTH :: "string option"

text \<open>\<open>e instanceof Error ? e.message : String(e)\<close>\<close>

fun error_text :: "world \<Rightarrow> thrown \<Rightarrow> string" where
  "error_text W (ErrorObject m) = m"
| "error_text W (NonError s) = s"
| "error_text W (PlatformError p) = error_message W p"

text \<open>\<open>JSON.stringify(v)\<close>\<close>

definition JSON_stringify :: "world \<Rightarrow> json \<Rightarrow> thrown + string" where
  "JSON_stringify W v =
     (if serialisable v then Inr (stringify W v) else Inl (PlatformError NotSerialisable))"

text \<open>One call of \<open>fetch\<close>: the outcome, and the log of requests extended.\<close>

definition fetch :: "world \<Rightarrow> request list \<Rightarrow> request \<Rightarrow> (thrown + http_response) \<times> request list" where
  "fetch W sent req = (transport W sent req, sent @ [req])"

section \<open>SHA-256, as \<open>crypto.subtle.digest\<close> computes it\<close>

type_synonym byte = "8 word"
type_synonym w32 = "32 word"

definition K256 :: "w32 list" where
  "K256 =
   [0x428A2F98, 0x71374491, 0xB5C0FBCF, 0xE9B5DBA5, 0x3956C25B, 0x59F111F1, 0x923F82A4, 0xAB1C5ED5,
    0xD807AA98, 0x12835B01, 0x243185BE, 0x550C7DC3, 0x72BE5D74, 0x80DEB1FE, 0x9BDC06A7, 0xC19BF174,
    0xE49B69C1, 0xEFBE4786, 0x0FC19DC6, 0x240CA1CC, 0x2DE92C6F, 0x4A7484AA, 0x5CB0A9DC, 0x76F988DA,
    0x983E5152, 0xA831C66D, 0xB00327C8, 0xBF597FC7, 0xC6E00BF3, 0xD5A79147, 0x06CA6351, 0x14292967,
    0x27B70A85, 0x2E1B2138, 0x4D2C6DFC, 0x53380D13, 0x650A7354, 0x766A0ABB, 0x81C2C92E, 0x92722C85,
    0xA2BFE8A1, 0xA81A664B, 0xC24B8B70, 0xC76C51A3, 0xD192E819, 0xD6990624, 0xF40E3585, 0x106AA070,
    0x19A4C116, 0x1E376C08, 0x2748774C, 0x34B0BCB5, 0x391C0CB3, 0x4ED8AA4A, 0x5B9CCA4F, 0x682E6FF3,
    0x748F82EE, 0x78A5636F, 0x84C87814, 0x8CC70208, 0x90BEFFFA, 0xA4506CEB, 0xBEF9A3F7, 0xC67178F2]"

definition H256 :: "w32 list" where
  "H256 =
   [0x6A09E667, 0xBB67AE85, 0x3C6EF372, 0xA54FF53A, 0x510E527F, 0x9B05688C, 0x1F83D9AB, 0x5BE0CD19]"

definition Ch :: "w32 \<Rightarrow> w32 \<Rightarrow> w32 \<Rightarrow> w32" where
  "Ch x y z = (x AND y) XOR (NOT x AND z)"

definition Maj :: "w32 \<Rightarrow> w32 \<Rightarrow> w32 \<Rightarrow> w32" where
  "Maj x y z = (x AND y) XOR (x AND z) XOR (y AND z)"

definition bsig0 :: "w32 \<Rightarrow> w32" where
  "bsig0 x = word_rotr 2 x XOR word_rotr 13 x XOR word_rotr 22 x"

definition bsig1 :: "w32 \<Rightarrow> w32" where
  "bsig1 x = word_rotr 6 x XOR word_rotr 11 x XOR word_rotr 25 x"

definition ssig0 :: "w32 \<Rightarrow> w32" where
  "ssig0 x = word_rotr 7 x XOR word_rotr 18 x XOR drop_bit 3 x"

definition ssig1 :: "w32 \<Rightarrow> w32" where
  "ssig1 x = word_rotr 17 x XOR word_rotr 19 x XOR drop_bit 10 x"

text \<open>The message length in bits, as eight bytes, most significant first.\<close>

definition be64 :: "nat \<Rightarrow> byte list" where
  "be64 n = map (\<lambda>i. ucast (drop_bit (8 * (7 - i)) (word_of_nat n :: 64 word))) [0..<8]"

definition sha_pad :: "byte list \<Rightarrow> byte list" where
  "sha_pad msg =
     msg @ [0x80] @ replicate ((119 - length msg mod 64) mod 64) 0 @ be64 (8 * length msg)"

definition be32 :: "byte list \<Rightarrow> w32" where
  "be32 bs = foldl (\<lambda>acc b. push_bit 8 acc OR ucast b) 0 bs"

definition block_words :: "byte list \<Rightarrow> w32 list" where
  "block_words blk = map (\<lambda>i. be32 (take 4 (drop (4 * i) blk))) [0..<16]"

fun schedule :: "nat \<Rightarrow> w32 list \<Rightarrow> w32 list" where
  "schedule 0 w = w"
| "schedule (Suc n) w =
     (let t = length w
      in schedule n
           (w @ [ssig1 (w ! (t - 2)) + w ! (t - 7) + ssig0 (w ! (t - 15)) + w ! (t - 16)]))"

definition sha_round :: "w32 list \<Rightarrow> w32 \<times> w32 \<Rightarrow> w32 list" where
  "sha_round s kw =
     (case s of
        [a, b, c, d, e, f, g, h] \<Rightarrow>
          (let t1 = h + bsig1 e + Ch e f g + fst kw + snd kw;
               t2 = bsig0 a + Maj a b c
           in [t1 + t2, a, b, c, d + t1, e, f, g])
      | _ \<Rightarrow> s)"

definition compress :: "w32 list \<Rightarrow> byte list \<Rightarrow> w32 list" where
  "compress hs blk =
     map2 (+) hs (foldl sha_round hs (zip K256 (schedule 48 (block_words blk))))"

definition blocks :: "byte list \<Rightarrow> byte list list" where
  "blocks bs = map (\<lambda>i. take 64 (drop (64 * i) bs)) [0..<length bs div 64]"

definition w32_bytes :: "w32 \<Rightarrow> byte list" where
  "w32_bytes w = map (\<lambda>i. ucast (drop_bit (8 * (3 - i)) w)) [0..<4]"

definition sha256 :: "byte list \<Rightarrow> byte list" where
  "sha256 msg = concat (map w32_bytes (foldl compress H256 (blocks (sha_pad msg))))"

section \<open>Session fingerprint\<close>

text \<open>\<open>new TextEncoder().encode(content)\<close> on a string held as UTF-8 bytes.\<close>

definition utf8 :: "string \<Rightarrow> byte list" where
  "utf8 s = map of_char s"

definition hexdigit :: "nat \<Rightarrow> char" where
  "hexdigit d = ''0123456789abcdef'' ! d"

text \<open>\<open>b.toString(16)\<close> on a non-negative integer: no leading zeros, \<open>"0"\<close> for zero.\<close>

function toString16 :: "nat \<Rightarrow> string" where
  "toString16 n =
     (if n < 16 then [hexdigit n] else toString16 (n div 16) @ [hexdigit (n mod 16)])"
  by pat_completeness auto
termination
  by (relation "measure id") auto

text \<open>\<open>s.padStart(n, c)\<close> with a one-character pad: \<open>s\<close> itself when it is long enough.\<close>

definition padStart :: "nat \<Rightarrow> char \<Rightarrow> string \<Rightarrow> string" where
  "padStart n c s = replicate (n - length s) c @ s"

text \<open>\<open>s || d\<close> on a string that may be absent: \<open>d\<close> when \<open>s\<close> is absent or empty.\<close>

definition str_or :: "string option \<Rightarrow> string \<Rightarrow> string" where
  "str_or s d = (case s of None \<Rightarrow> d | Some t \<Rightarrow> if t = [] then d else t)"

text \<open>Lines 23 to 28; the promise rejects when \<open>JSON.stringify\<close> throws.\<close>

definition generateSessionId :: "world \<Rightarrow> string option \<Rightarrow> json list \<Rightarrow> thrown + string" where
  "generateSessionId W instr items =
     (case JSON_stringify W (JArr items) of
        Inl e \<Rightarrow> Inl e
      | Inr text \<Rightarrow>
          (let content = str_or instr [] @ ''|'' @ text;
               hashArray = sha256 (utf8 content)
           in Inr (concat (map (\<lambda>b. padStart 2 CHR ''0'' (toString16 (unat b))) hashArray))))"

text \<open>
  The rendering the specification words, with a digit table of its own: each byte as two
  lowercase hexadecimal digits, the high one first.
\<close>

definition hex_digit_spec :: "nat \<Rightarrow> char" where
  "hex_digit_spec d =
     (if d = 0 then CHR ''0'' else if d = 1 then CHR ''1'' else if d = 2 then CHR ''2''
      else if d = 3 then CHR ''3'' else if d = 4 then CHR ''4'' else if d = 5 then CHR ''5''
      else if d = 6 then CHR ''6'' else if d = 7 then CHR ''7'' else if d = 8 then CHR ''8''
      else if d = 9 then CHR ''9'' else if d = 10 then CHR ''a'' else if d = 11 then CHR ''b''
      else if d = 12 then CHR ''c'' else if d = 13 then CHR ''d'' else if d = 14 then CHR ''e''
      else CHR ''f'')"

definition hex_byte_spec :: "byte \<Rightarrow> string" where
  "hex_byte_spec b = [hex_digit_spec (unat b div 16), hex_digit_spec (unat b mod 16)]"

definition lower_hex :: "char \<Rightarrow> bool" where
  "lower_hex c = (c \<in> set ''0123456789abcdef'')"

section \<open>Base instructions\<close>

definition base_instructions_url :: string where
  "base_instructions_url =
     ''https://raw.githubusercontent.com/openai/codex/refs/heads/main/codex-rs/core/prompt.md''"

definition fallback_instructions :: string where
  "fallback_instructions =
     ''You are a coding agent running in the Codex CLI, a terminal-based coding assistant. You are expected to be precise, safe, and helpful.''"

text \<open>\<open>response.text()\<close>\<close>

definition body_text :: "world \<Rightarrow> body \<Rightarrow> string" where
  "body_text W b = (case b of JsonBody v \<Rightarrow> stringify W v | RawBody s \<Rightarrow> s)"

text \<open>
  \<open>getBaseInstructions\<close> fetches the prompt with a plain \<open>fetch(url)\<close> and falls back to
  a fixed text when the fetch rejects or the status is not 2xx; nothing it throws leaves it.
\<close>

definition instructions_request :: request where
  "instructions_request =
     \<lparr>req_method = ''GET'', req_url = base_instructions_url, req_headers = [], req_body = None\<rparr>"

definition getBaseInstructions :: "world \<Rightarrow> request list \<Rightarrow> string \<times> request list" where
  "getBaseInstructions W sent =
     (case fetch W sent instructions_request of
        (Inl e, sent') \<Rightarrow> (fallback_instructions, sent')
      | (Inr r, sent') \<Rightarrow>
          if \<not> ok r then (fallback_instructions, sent') else (body_text W (resp_body r), sent'))"

section \<open>Request shaping\<close>

text \<open>\<open>String(v)\<close> of a string that may be \<open>undefined\<close>, as a template literal renders it.\<close>

definition js_string :: "string option \<Rightarrow> string" where
  "js_string s = (case s of None \<Rightarrow> ''undefined'' | Some t \<Rightarrow> t)"

text \<open>Lines 76 to 79: \<open>reasoningParam?.effort !== "none"\<close>.\<close>

definition include_list :: "ReasoningParam option \<Rightarrow> string list" where
  "include_list rp =
     (if (case rp of None \<Rightarrow> None | Some r \<Rightarrow> effort r) \<noteq> Some ''none''
      then [''reasoning.encrypted_content''] else [])"

text \<open>
  Lines 97 to 101: \<open>(tc && (tc === "auto" || tc === "none" || typeof tc === "object")) ||
  tc === undefined ? tc || "auto" : "auto"\<close>.
\<close>

definition tool_choice_field :: "json option \<Rightarrow> json" where
  "tool_choice_field tc =
     (if (truthy tc \<and> (tc = Some (JStr ''auto'') \<or> tc = Some (JStr ''none'') \<or> typeof_object tc))
         \<or> tc = None
      then (case tc of None \<Rightarrow> JStr ''auto'' | Some v \<Rightarrow> if truthy_json v then v else JStr ''auto'')
      else JStr ''auto'')"

definition reasoning_json :: "ReasoningParam \<Rightarrow> json" where
  "reasoning_json r =
     JObj ((case effort r of None \<Rightarrow> [] | Some e \<Rightarrow> [(''effort'', JStr e)]) @
           (case summary r of None \<Rightarrow> [] | Some s \<Rightarrow> [(''summary'', JStr s)]))"

definition isOllamaRequest :: "options \<Rightarrow> bool" where
  "isOllamaRequest args = truthy_str (ollamaPath args)"

definition requestUrl :: "world \<Rightarrow> options \<Rightarrow> string" where
  "requestUrl W args =
     (if isOllamaRequest args then OLLAMA_API_URL W @ js_string (ollamaPath args)
      else CHATGPT_RESPONSES_URL W)"

text \<open>
  The variable \<open>sessionId\<close> of line 86 once it is set; a rejection of
  \<open>generateSessionId\<close> leaves \<open>startUpstreamRequest\<close> before the variable is read.
\<close>

definition sessionId :: "world \<Rightarrow> options \<Rightarrow> string option" where
  "sessionId W args =
     (if isOllamaRequest args then None
      else (case generateSessionId W (instructions args) (inputItems args) of
              Inl e \<Rightarrow> None
            | Inr fp \<Rightarrow> Some fp))"

text \<open>
  The object literal of lines 92 to 108, as it is when \<open>normalizeModelName\<close> returns;
  \<open>JSON.stringify\<close> drops an undefined property.
\<close>

definition primary_body :: "world \<Rightarrow> options \<Rightarrow> string \<Rightarrow> (string \<times> json) list" where
  "primary_body W args baseInstructions =
     [(''model'', JStr (normalizeModelName W (model args) (DEBUG_MODEL W))),
      (''instructions'', JStr (str_or (instructions args) baseInstructions)),
      (''input'', JArr (inputItems args)),
      (''tools'', JArr (case tools args of None \<Rightarrow> [] | Some ts \<Rightarrow> ts)),
      (''tool_choice'', tool_choice_field (toolChoice args)),
      (''parallel_tool_calls'', JBool (case parallelToolCalls args of None \<Rightarrow> False | Some b \<Rightarrow> b)),
      (''store'', JBool False),
      (''stream'', JBool True),
      (''include'', JArr (map JStr (include_list (reasoningParam args))))] @
     (case sessionId W args of None \<Rightarrow> [] | Some sid \<Rightarrow> [(''prompt_cache_key'', JStr sid)]) @
     (case reasoningParam args of None \<Rightarrow> [] | Some r \<Rightarrow> [(''reasoning'', reasoning_json r)])"

definition requestBody :: "world \<Rightarrow> options \<Rightarrow> string \<Rightarrow> json option" where
  "requestBody W args baseInstructions =
     (if isOllamaRequest args then ollamaPayload args
      else Some (JObj (primary_body W args baseInstructions)))"

text \<open>Lines 110 to 122, and again lines 163 to 175 with the refreshed credentials.\<close>

definition request_headers :: "world \<Rightarrow> options \<Rightarrow> string \<Rightarrow> string \<Rightarrow> (string \<times> string) list" where
  "request_headers W args token account =
     [(''Content-Type'', ''application/json'')] @
     (if \<not> isOllamaRequest args
      then [(''Authorization'', ''Bearer '' @ token),
            (''Accept'', ''text/event-stream''),
            (''chatgpt-account-id'', account),
            (''OpenAI-Beta'', ''responses=experimental'')] @
           (if truthy_str (sessionId W args) then [(''session_id'', js_string (sessionId W args))] else [])
      else [])"

definition upstream_request :: "world \<Rightarrow> options \<Rightarrow> string \<Rightarrow> string \<Rightarrow> string \<Rightarrow> request" where
  "upstream_request W args baseInstructions token account =
     \<lparr>req_method = ''POST'',
      req_url = requestUrl W args,
      req_headers = request_headers W args token account,
      req_body = requestBody W args baseInstructions\<rparr>"

section \<open>Dispatch\<close>

text \<open>
  The response \<open>new Response(JSON.stringify({error: {message: m}}), {status, headers})\<close>
  builds, its body the value the text denotes, and the expression itself:
  \<open>JSON.stringify\<close> first, then the constructor, which refuses a status outside 200 to
  599 and a body on a null-body status. The two fixed statuses of the program, 401 and
  502, with their string messages pass.
\<close>

definition error_response :: "nat \<Rightarrow> json \<Rightarrow> http_response" where
  "error_response st m =
     \<lparr>status = st, statusText = [],
      resp_headers = [(''Content-Type'', ''application/json'')],
      resp_body = JsonBody (JObj [(''error'', JObj [(''message'', as_json m)])])\<rparr>"

definition new_error_response :: "nat \<Rightarrow> json \<Rightarrow> thrown + http_response" where
  "new_error_response st m =
     (if \<not> serialisable m then Inl (PlatformError NotSerialisable)
      else if st < 200 \<or> 599 < st then Inl (PlatformError (StatusOutOfRange st))
      else if st = 204 \<or> st = 205 \<or> st = 304 then Inl (PlatformError (NullBodyStatus st))
      else Inr (error_response st m))"

definition failure :: "nat \<Rightarrow> json \<Rightarrow> result" where
  "failure st m = \<lparr>response = None, error = Some (error_response st m)\<rparr>"

definition success :: "http_response \<Rightarrow> result" where
  "success r = \<lparr>response = Some r, error = None\<rparr>"

text \<open>\<open>await upstreamResponse.json().catch(() => ({ raw: upstreamResponse.statusText }))\<close>\<close>

definition errorBody :: "http_response \<Rightarrow> json" where
  "errorBody r =
     (case resp_body r of JsonBody v \<Rightarrow> v | RawBody s \<Rightarrow> JObj [(''raw'', JStr (statusText r))])"

text \<open>\<open>(errorBody.error && errorBody.error.message) || "Upstream error"\<close>\<close>

definition upstream_message :: "json \<Rightarrow> thrown + json" where
  "upstream_message eb =
     (case get_prop eb ''error'' of
        Inl e \<Rightarrow> Inl e
      | Inr None \<Rightarrow> Inr (JStr ''Upstream error'')
      | Inr (Some err) \<Rightarrow>
          if \<not> truthy_json err then Inr (JStr ''Upstream error'')
          else (case get_prop err ''message'' of
                  Inl e \<Rightarrow> Inl e
                | Inr None \<Rightarrow> Inr (JStr ''Upstream error'')
                | Inr (Some m) \<Rightarrow> Inr (if truthy_json m then m else JStr ''Upstream error'')))"

text \<open>The return of lines 195 to 205, built from the first response.\<close>

definition upstream_failure :: "http_response \<Rightarrow> thrown + result" where
  "upstream_failure upstreamResponse =
     (case upstream_message (errorBody upstreamResponse) of
        Inl e \<Rightarrow> Inl e
      | Inr m \<Rightarrow>
          (case new_error_response (status upstreamResponse) m of
             Inl e \<Rightarrow> Inl e
           | Inr er \<Rightarrow> Inr \<lparr>response = None, error = Some er\<rparr>))"

text \<open>
  The body of the \<open>try\<close> block, lines 124 to 208: \<open>Inl\<close> is what it throws, with the
  requests issued until then.
\<close>

definition try_send ::
  "world \<Rightarrow> options \<Rightarrow> string \<Rightarrow> string \<Rightarrow> string \<Rightarrow> request list \<Rightarrow> (thrown + result) \<times> request list" where
  "try_send W args baseInstructions token account sent =
     (case fetch W sent (upstream_request W args baseInstructions token account) of
        (Inl e, sent1) \<Rightarrow> (Inl e, sent1)
      | (Inr upstreamResponse, sent1) \<Rightarrow>
          if \<not> ok upstreamResponse then
            (if status upstreamResponse = 401 \<and> truthy_str (OPENAI_CODEX_AUTH W) then
               (case refreshAccessToken W of
                  Inl e \<Rightarrow> (Inl e, sent1)
                | Inr None \<Rightarrow> (upstream_failure upstreamResponse, sent1)
                | Inr (Some refreshedTokens) \<Rightarrow>
                    (case fetch W sent1
                            (upstream_request W args baseInstructions
                               (access_token refreshedTokens)
                               (str_or (account_id refreshedTokens) account)) of
                       (Inl e, sent2) \<Rightarrow> (Inl e, sent2)
                     | (Inr retryResponse, sent2) \<Rightarrow>
                         if ok retryResponse then (Inr (success retryResponse), sent2)
                         else (upstream_failure upstreamResponse, sent2)))
             else (upstream_failure upstreamResponse, sent1))
          else (Inr (success upstreamResponse), sent1))"

definition missing_credentials :: string where
  "missing_credentials = ''Missing ChatGPT credentials. Run 'codex login' first''"

definition request_failed :: string where
  "request_failed = ''Upstream ChatGPT request failed''"

text \<open>
  Lines 90 to 108, which run before the \<open>try\<close> block: what the computation of
  \<open>requestBody\<close> throws, if it throws. On the alternate backend that is
  \<open>JSON.stringify\<close> of the payload (of \<open>undefined\<close> it is \<open>undefined\<close>), on the
  primary one \<open>normalizeModelName\<close> and then \<open>JSON.stringify\<close> of the object.
\<close>

definition body_throws :: "world \<Rightarrow> options \<Rightarrow> string \<Rightarrow> thrown option" where
  "body_throws W args baseInstructions =
     (if isOllamaRequest args then
        (case ollamaPayload args of
           None \<Rightarrow> None
         | Some p \<Rightarrow> (case JSON_stringify W p of Inl e \<Rightarrow> Some e | Inr text \<Rightarrow> None))
      else
        (case normalizeModelName_throws W (model args) (DEBUG_MODEL W) of
           Some e \<Rightarrow> Some e
         | None \<Rightarrow>
             (case JSON_stringify W (JObj (primary_body W args baseInstructions)) of
                Inl e \<Rightarrow> Some e
              | Inr text \<Rightarrow> None)))"

text \<open>
  \<open>startUpstreamRequest\<close>: what the returned promise settles to (\<open>Inl\<close>: it rejects),
  and every request issued through \<open>fetch\<close>, in order. Line 86 awaits
  \<open>generateSessionId\<close> on the primary backend only; what it and lines 90 to 108 throw is not caught. The
  \<open>console\<close> output and the read of \<open>env.KV\<close>, which only feeds it and is caught, are
  left out.
\<close>

definition startUpstreamRequest :: "world \<Rightarrow> options \<Rightarrow> (thrown + result) \<times> request list" where
  "startUpstreamRequest W args =
     (case getRefreshedAuth W of
        Inl e \<Rightarrow> (Inl e, [])
      | Inr a \<Rightarrow>
          if \<not> truthy_str (accessToken a) \<or> \<not> truthy_str (accountId a)
          then (Inr (failure 401 (JStr missing_credentials)), [])
          else
            (case (if isOllamaRequest args then Inr []
                   else generateSessionId W (instructions args) (inputItems args)) of
               Inl e \<Rightarrow> (Inl e, [])
             | Inr fp \<Rightarrow>
                 (case getBaseInstructions W [] of
                    (baseInstructions, sent0) \<Rightarrow>
                      (case body_throws W args baseInstructions of
                         Some e \<Rightarrow> (Inl e, sent0)
                       | None \<Rightarrow>
                           (case try_send W args baseInstructions
                                   (js_string (accessToken a)) (js_string (accountId a)) sent0 of
                              (Inl e, sent) \<Rightarrow>
                                (Inr (failure 502 (JStr (request_failed @ '': '' @ error_text W e))),
                                 sent)
                            | (Inr r, sent) \<Rightarrow> (Inr r, sent))))))"

section \<open>Observations on a run\<close>

text \<open>The sends of the shaped request among the requests issued: the \<open>POST\<close>s.\<close>

definition upstream_sends :: "request list \<Rightarrow> request list" where
  "upstream_sends sent = filter (\<lambda>r. req_method r = ''POST'') sent"

text \<open>A field of the JSON object a request carries.\<close>

definition body_field :: "request \<Rightarrow> string \<Rightarrow> json option" where
  "body_field r k = (case req_body r of Some (JObj kvs) \<Rightarrow> map_of kvs k | _ \<Rightarrow> None)"

fun is_structured :: "json \<Rightarrow> bool" where
  "is_structured (JArr xs) = True"
| "is_structured (JObj kvs) = True"
| "is_structured v = False"

text \<open>
  The structured choice as the specification and the type \<open>ToolChoice\<close> word it:
  \<open>{type: string, function: {name: string}}\<close>.
\<close>

definition well_formed_choice :: "json \<Rightarrow> bool" where
  "well_formed_choice v =
     (case v of
        JObj kvs \<Rightarrow>
          (case (map_of kvs ''type'', map_of kvs ''function'') of
             (Some (JStr t), Some (JObj f)) \<Rightarrow>
               (case map_of f ''name'' of Some (JStr n) \<Rightarrow> True | _ \<Rightarrow> False)
           | _ \<Rightarrow> False)
      | _ \<Rightarrow> False)"

text \<open>
  The \<open>tool_choice\<close> policy in the specification's words: the value itself when it is
  \<open>"auto"\<close>, \<open>"none"\<close> or a well-formed structured choice, \<open>"auto"\<close> otherwise.
\<close>

definition tool_choice_spec :: "json option \<Rightarrow> json" where
  "tool_choice_spec tc =
     (case tc of
        None \<Rightarrow> JStr ''auto''
      | Some v \<Rightarrow>
          if v = JStr ''auto'' \<or> v = JStr ''none'' \<or> well_formed_choice v then v
          else JStr ''auto'')"

text \<open>
  A sufficient condition, on the call's input, for lines 86 to 108 to return: nothing
  handed to \<open>JSON.stringify\<close> holds a \<open>BigInt\<close>, and \<open>normalizeModelName\<close> returns.
\<close>

definition shaped :: "world \<Rightarrow> options \<Rightarrow> bool" where
  "shaped W args =
     (if isOllamaRequest args then
        (case ollamaPayload args of None \<Rightarrow> True | Some p \<Rightarrow> serialisable p)
      else
        normalizeModelName_throws W (model args) (DEBUG_MODEL W) = None \<and>
        list_all serialisable (inputItems args) \<and>
        (case tools args of None \<Rightarrow> True | Some ts \<Rightarrow> list_all serialisable ts) \<and>
        (case toolChoice args of None \<Rightarrow> True | Some v \<Rightarrow> serialisable v))"

text \<open>
  The message the specification gives a mirrored failure: \<open>error.message\<close> of the first
  response's body where the body is an object whose \<open>error\<close> is an object with a truthy
  \<open>message\<close>, in the value its JSON text denotes, and \<open>Upstream error\<close> otherwise.
\<close>

definition message_spec :: "http_response \<Rightarrow> json" where
  "message_spec r =
     (case resp_body r of
        JsonBody (JObj kvs) \<Rightarrow>
          (case map_of kvs ''error'' of
             Some (JObj e) \<Rightarrow>
               (case map_of e ''message'' of
                  Some m \<Rightarrow> if truthy_json m then as_json m else JStr ''Upstream error''
                | None \<Rightarrow> JStr ''Upstream error'')
           | _ \<Rightarrow> JStr ''Upstream error'')
      | _ \<Rightarrow> JStr ''Upstream error'')"

text \<open>
  The responses whose failure the program mirrors as the specification says: the body is
  not the JSON text \<open>null\<close>, it holds what \<open>JSON.parse\<close> can yield, and the status is
  one \<open>new Response\<close> takes with a body.
\<close>

definition mirrorable :: "http_response \<Rightarrow> bool" where
  "mirrorable r =
     (resp_body r \<noteq> JsonBody JNull \<and>
      (case resp_body r of JsonBody v \<Rightarrow> serialisable v | RawBody s \<Rightarrow> True) \<and>
      200 \<le> status r \<and> status r \<le> 599 \<and>
      status r \<noteq> 204 \<and> status r \<noteq> 205 \<and> status r \<noteq> 304)"

text \<open>A result that is an error response with a status and a message, and nothing else.\<close>

definition refusal :: "nat \<Rightarrow> json \<Rightarrow> result \<Rightarrow> bool" where
  "refusal st m res =
     (response res = None \<and>
      (case error res of
         None \<Rightarrow> False
       | Some er \<Rightarrow>
           status er = st \<and>
           resp_body er = JsonBody (JObj [(''error'', JObj [(''message'', m)])])))"

section \<open>Concrete runs\<close>

definition reply :: "nat \<Rightarrow> body \<Rightarrow> http_response" where
  "reply st b = \<lparr>status = st, statusText = [], resp_headers = [], resp_body = b\<rparr>"

text \<open>A transport that answers the \<open>n\<close>-th call with the \<open>n\<close>-th entry of a script.\<close>

definition scripted ::
  "(thrown + http_response) list \<Rightarrow> request list \<Rightarrow> request \<Rightarrow> thrown + http_response" where
  "scripted script sent req =
     (if length sent < length script then script ! length sent
      else Inl (ErrorObject ''connection refused''))"

text \<open>The messages of V8 and of the Workers runtime.\<close>

fun workers_message :: "platform_error \<Rightarrow> string" where
  "workers_message (NullRead k) =
     ''Cannot read properties of null (reading '' @ [CHR 0x27] @ k @ [CHR 0x27] @ '')''"
| "workers_message NotSerialisable = ''Do not know how to serialize a BigInt''"
| "workers_message (StatusOutOfRange st) =
     ''Responses may only be constructed with status codes in the range 200 to 599, inclusive.''"
| "workers_message (NullBodyStatus st) =
     ''Response with null body status (101, 204, 205, or 304) cannot have a body.''"

definition example_world ::
  "(thrown + auth) \<Rightarrow> (thrown + tokens option) \<Rightarrow> (thrown + http_response) list \<Rightarrow> world" where
  "example_world au rf script =
     \<lparr>getRefreshedAuth = au, refreshAccessToken = rf,
      normalizeModelName = (\<lambda>m d. case d of None \<Rightarrow> m | Some x \<Rightarrow> x),
      normalizeModelName_throws = (\<lambda>m d. None),
      stringify = (\<lambda>v. ''[]''),
      transport = scripted script,
      error_message = workers_message,
      CHATGPT_RESPONSES_URL = ''https://chatgpt.com/backend-api/codex/responses'',
      OLLAMA_API_URL = ''http://localhost:11434'',
      DEBUG_MODEL = None,
      OPENAI_CODEX_AUTH = Some ''{}''\<rparr>"

definition example_auth :: auth where
  "example_auth = \<lparr>accessToken = Some ''tok'', accountId = Some ''acct''\<rparr>"

definition no_token :: auth where
  "no_token = \<lparr>accessToken = None, accountId = Some ''acct''\<rparr>"

definition example_options :: options where
  "example_options =
     \<lparr>model = ''gpt-5'', inputItems = [], instructions = None, tools = None, toolChoice = None,
      parallelToolCalls = None, reasoningParam = None, ollamaPath = None, ollamaPayload = None\<rparr>"

definition ollama_options :: options where
  "ollama_options =
     example_options\<lparr>ollamaPath := Some ''/api/chat'', ollamaPayload := Some (JObj [])\<rparr>"

definition foo_choice :: json where
  "foo_choice = JObj [(''type'', JStr ''function''), (''function'', JObj [(''name'', JStr ''foo'')])]"

definition prompt_reply :: "thrown + http_response" where
  "prompt_reply = Inr (reply 200 (RawBody ''You are Codex.''))"

definition expired_reply :: http_response where
  "expired_reply =
     reply 401 (JsonBody (JObj [(''error'', JObj [(''message'', JStr ''token expired'')])]))"

definition stream_reply :: http_response where
  "stream_reply = reply 200 (RawBody ''data: {}'')"

definition refreshed_tokens :: tokens where
  "refreshed_tokens = \<lparr>access_token = ''tok2'', account_id = None\<rparr>"

definition world_retry_ok :: world where
  "world_retry_ok =
     example_world (Inr example_auth) (Inr (Some refreshed_tokens))
       [prompt_reply, Inr expired_reply, Inr stream_reply]"

definition world_no_credentials :: world where
  "world_no_credentials = example_world (Inr no_token) (Inr None) []"

definition world_unreachable :: world where
  "world_unreachable =
     example_world (Inr example_auth) (Inr None)
       [prompt_reply, Inl (ErrorObject ''getaddrinfo ENOTFOUND chatgpt.com'')]"

definition world_null_401 :: world where
  "world_null_401 =
     example_world (Inr example_auth) (Inr None) [prompt_reply, Inr (reply 401 (JsonBody JNull))]"

definition world_numeric_message :: world where
  "world_numeric_message =
     example_world (Inr example_auth) (Inr None)
       [prompt_reply,
        Inr (reply 500 (JsonBody (JObj [(''error'', JObj [(''message'', JNum 42)])])))]"

definition world_rejecting_auth :: world where
  "world_rejecting_auth = example_world (Inl (ErrorObject ''KV unavailable'')) (Inr None) []"

definition world_unknown_model :: world where
  "world_unknown_model =
     (example_world (Inr example_auth) (Inr None) [prompt_reply])
       \<lparr>normalizeModelName_throws := (\<lambda>m d. Some (ErrorObject ''unknown model''))\<rparr>"

definition bigint_options :: options where
  "bigint_options =
     example_options\<lparr>ollamaPath := Some ''/api/chat'',
       ollamaPayload := Some (JObj [(''seed'', JBigInt 1)])\<rparr>"

section \<open>The digest and its rendering\<close>

lemma sha_round_length: "length s = 8 \<Longrightarrow> length (sha_round s kw) = 8"
  unfolding sha_round_def
  by (auto simp: Let_def split: list.splits)

lemma foldl_sha_round_length: "length s = 8 \<Longrightarrow> length (foldl sha_round s kws) = 8"
  by (induction kws arbitrary: s) (simp_all add: sha_round_length)

lemma compress_length: "length hs = 8 \<Longrightarrow> length (compress hs blk) = 8"
  unfolding compress_def by (simp add: foldl_sha_round_length)

lemma foldl_compress_length: "length hs = 8 \<Longrightarrow> length (foldl compress hs bs) = 8"
  by (induction bs arbitrary: hs) (simp_all add: compress_length)

lemma w32_bytes_length: "length (w32_bytes w) = 4"
  by (simp add: w32_bytes_def)

lemma concat_w32_bytes_length: "length (concat (map w32_bytes ws)) = 4 * length ws"
  by (induction ws) (simp_all add: w32_bytes_length)

lemma sha256_length: "length (sha256 msg) = 32"
  unfolding sha256_def
  by (simp add: concat_w32_bytes_length foldl_compress_length H256_def)

lemma toString16_small: "n < 16 \<Longrightarrow> toString16 n = [hexdigit n]"
  by simp

lemma toString16_byte:
  "16 \<le> n \<Longrightarrow> n < 256 \<Longrightarrow> toString16 n = [hexdigit (n div 16), hexdigit (n mod 16)]"
  by (subst toString16.simps) (simp add: toString16_small)

lemma hexdigit_table: "list_all (\<lambda>d. hexdigit d = hex_digit_spec d) [0..<16]"
  unfolding hexdigit_def hex_digit_spec_def by code_simp

lemma hexdigit_spec: "d < 16 \<Longrightarrow> hexdigit d = hex_digit_spec d"
  using hexdigit_table by (simp add: list_all_iff)

lemma hex_digit_spec_0: "hex_digit_spec 0 = CHR ''0''"
  by (simp add: hex_digit_spec_def)

lemma hex_render: "padStart 2 CHR ''0'' (toString16 (unat (b::byte))) = hex_byte_spec b"
proof -
  have b: "unat b < 256"
    using unsigned_less [of b] by simp
  then have d: "unat b div 16 < 16" "unat b mod 16 < 16"
    by simp_all
  show ?thesis
  proof (cases "unat b < 16")
    case True
    then show ?thesis
      by (simp add: padStart_def hex_byte_spec_def hexdigit_spec hex_digit_spec_0 numeral_2_eq_2)
  next
    case False
    with b d show ?thesis
      by (simp add: padStart_def hex_byte_spec_def toString16_byte hexdigit_spec
            del: toString16.simps)
  qed
qed

lemma hex_digit_spec_lower: "lower_hex (hex_digit_spec d)"
  by (simp add: lower_hex_def hex_digit_spec_def)

lemma hex_bytes_lower: "list_all lower_hex (concat (map hex_byte_spec bs))"
  by (induction bs) (simp_all add: hex_byte_spec_def hex_digit_spec_lower)

lemma hex_concat_length: "length (concat (map hex_byte_spec bs)) = 2 * length bs"
  by (induction bs) (simp_all add: hex_byte_spec_def)

lemma utf8_of_char: "utf8 s = map of_char s"
  by (simp add: utf8_def)

lemma str_or_empty: "str_or instr [] = (case instr of None \<Rightarrow> [] | Some s \<Rightarrow> s)"
  by (simp add: str_or_def split: option.splits)

lemma generateSessionId_value:
  "serialisable (JArr items) \<Longrightarrow>
     generateSessionId W instr items =
       Inr (concat (map hex_byte_spec
              (sha256 (map of_char
                 ((case instr of None \<Rightarrow> [] | Some s \<Rightarrow> s) @ ''|'' @ stringify W (JArr items))))))"
  unfolding generateSessionId_def JSON_stringify_def Let_def
  by (simp only: hex_render utf8_of_char str_or_empty if_True sum.case)

lemma generateSessionId_cases:
  "generateSessionId W instr items = Inr fp \<Longrightarrow> serialisable (JArr items)"
  unfolding generateSessionId_def JSON_stringify_def
  by (auto split: if_splits)

lemma generateSessionId_length:
  assumes "generateSessionId W instr items = Inr fp"
  shows "length fp = 64 \<and> list_all lower_hex fp"
proof -
  from assms have "serialisable (JArr items)"
    by (rule generateSessionId_cases)
  from generateSessionId_value [OF this, of W instr] assms show ?thesis
    by (auto simp: hex_concat_length sha256_length hex_bytes_lower)
qed

section \<open>Shaping returns, and what a mirrored failure carries\<close>

lemma tool_choice_serialisable:
  "(case tc of None \<Rightarrow> True | Some v \<Rightarrow> serialisable v) \<Longrightarrow> serialisable (tool_choice_field tc)"
  by (auto simp: tool_choice_field_def split: option.splits)

lemma strings_serialisable: "list_all serialisable (map JStr xs)"
  by (induction xs) simp_all

lemma primary_body_serialisable:
  assumes "list_all serialisable (inputItems args)"
    and "case tools args of None \<Rightarrow> True | Some ts \<Rightarrow> list_all serialisable ts"
    and "case toolChoice args of None \<Rightarrow> True | Some v \<Rightarrow> serialisable v"
  shows "serialisable (JObj (primary_body W args base))"
  using assms tool_choice_serialisable [of "toolChoice args"]
  unfolding primary_body_def reasoning_json_def
  by (auto simp: strings_serialisable split: option.splits)

lemma shaped_session:
  "shaped W args \<Longrightarrow>
     \<exists>fp. (if isOllamaRequest args then Inr []
           else generateSessionId W (instructions args) (inputItems args)) = Inr fp"
  by (auto simp: shaped_def generateSessionId_value)

lemma shaped_body: "shaped W args \<Longrightarrow> body_throws W args base = None"
proof (cases "isOllamaRequest args")
  case True
  assume "shaped W args"
  with True show ?thesis
    by (auto simp: shaped_def body_throws_def JSON_stringify_def split: option.splits)
next
  case False
  assume "shaped W args"
  with False primary_body_serialisable [of args W base] show ?thesis
    by (simp add: shaped_def body_throws_def JSON_stringify_def)
qed

lemma request_failed_text:
  "request_failed @ '': '' @ x = ''Upstream ChatGPT request failed: '' @ x"
  by (simp add: request_failed_def)

lemma startUpstreamRequest_shaped:
  assumes "getRefreshedAuth W = Inr a"
    and "truthy_str (accessToken a)" and "truthy_str (accountId a)"
    and "shaped W args"
    and "getBaseInstructions W [] = (base, sent0)"
  shows "startUpstreamRequest W args =
     (case try_send W args base (js_string (accessToken a)) (js_string (accountId a)) sent0 of
        (Inl e, sent) \<Rightarrow>
          (Inr (failure 502 (JStr (''Upstream ChatGPT request failed: '' @ error_text W e))), sent)
      | (Inr r, sent) \<Rightarrow> (Inr r, sent))"
proof -
  from shaped_session [OF assms(4)] obtain fp where
    "(if isOllamaRequest args then Inr []
      else generateSessionId W (instructions args) (inputItems args)) = Inr fp"
    by blast
  with assms shaped_body [OF assms(4), of base] show ?thesis
    unfolding startUpstreamRequest_def request_failed_text by simp
qed

lemma serialisable_map_of:
  "list_all (\<lambda>kv. serialisable (snd kv)) kvs \<Longrightarrow> map_of kvs k = Some v \<Longrightarrow> serialisable v"
  by (auto simp: list_all_iff dest!: map_of_SomeD)

lemma mirror_message:
  assumes "mirrorable r"
  shows "\<exists>m. upstream_message (errorBody r) = Inr m \<and> serialisable m \<and> as_json m = message_spec r"
proof (cases "resp_body r")
  case (RawBody s)
  then show ?thesis
    by (simp add: upstream_message_def errorBody_def message_spec_def)
next
  case (JsonBody v)
  with assms have v: "v \<noteq> JNull" "serialisable v"
    by (auto simp: mirrorable_def)
  show ?thesis
  proof (cases v)
    case (JObj kvs)
    show ?thesis
    proof (cases "map_of kvs ''error''")
      case None
      with JsonBody JObj show ?thesis
        by (simp add: upstream_message_def errorBody_def message_spec_def)
    next
      case (Some err)
      with v JObj have se: "serialisable err"
        by (auto dest: serialisable_map_of)
      show ?thesis
      proof (cases err)
        case (JObj e)
        with se have "\<And>m. map_of e ''message'' = Some m \<Longrightarrow> serialisable m"
          by (auto dest: serialisable_map_of)
        with JsonBody \<open>v = JObj kvs\<close> Some JObj show ?thesis
          by (auto simp: upstream_message_def errorBody_def message_spec_def split: option.splits)
      qed (use JsonBody \<open>v = JObj kvs\<close> Some in
            \<open>auto simp: upstream_message_def errorBody_def message_spec_def\<close>)
    qed
  qed (use JsonBody v in \<open>auto simp: upstream_message_def errorBody_def message_spec_def\<close>)
qed

lemma mirrored_failure:
  assumes "mirrorable r"
  shows "\<exists>res. upstream_failure r = Inr res \<and> refusal (status r) (message_spec r) res"
proof -
  from mirror_message [OF assms] obtain m where
    "upstream_message (errorBody r) = Inr m" "serialisable m" "as_json m = message_spec r"
    by blast
  with assms show ?thesis
    by (auto simp: upstream_failure_def new_error_response_def mirrorable_def refusal_def
          error_response_def)
qed

section \<open>Paths through the dispatch\<close>

lemmas example_defs =
  example_world_def scripted_def reply_def example_auth_def no_token_def prompt_reply_def
  expired_reply_def refreshed_tokens_def stream_reply_def

lemma getBaseInstructions_sent: "snd (getBaseInstructions W sent) = sent @ [instructions_request]"
  unfolding getBaseInstructions_def fetch_def by (simp split: sum.splits)

lemma example_base:
  "getBaseInstructions (example_world au rf (prompt_reply # rest)) [] =
     (''You are Codex.'', [instructions_request])"
  by (simp add: getBaseInstructions_def fetch_def body_text_def ok_def example_defs)

lemma example_shaped: "shaped (example_world au rf script) example_options"
  by (simp add: shaped_def isOllamaRequest_def example_options_def example_world_def)

lemma example_shaped_ollama: "shaped W ollama_options"
  by (simp add: shaped_def isOllamaRequest_def ollama_options_def example_options_def)

lemma upstream_request_method: "req_method (upstream_request W args base t i) = ''POST''"
  by (simp add: upstream_request_def)

lemma upstream_failure_shape:
  "upstream_failure r = Inr res \<Longrightarrow>
     \<exists>er m. res = \<lparr>response = None, error = Some er\<rparr> \<and>
       resp_body er = JsonBody (JObj [(''error'', JObj [(''message'', m)])])"
  unfolding upstream_failure_def new_error_response_def error_response_def
  by (auto split: sum.splits if_splits)

lemma try_send_first_throws:
  "transport W sent (upstream_request W args base t i) = Inl e \<Longrightarrow>
     try_send W args base t i sent = (Inl e, sent @ [upstream_request W args base t i])"
  by (simp add: try_send_def fetch_def)

lemma try_send_first_ok:
  "transport W sent (upstream_request W args base t i) = Inr r \<Longrightarrow> ok r \<Longrightarrow>
     try_send W args base t i sent =
       (Inr \<lparr>response = Some r, error = None\<rparr>, sent @ [upstream_request W args base t i])"
  by (simp add: try_send_def fetch_def success_def)

lemma try_send_no_retry:
  "transport W sent (upstream_request W args base t i) = Inr r \<Longrightarrow> \<not> ok r \<Longrightarrow>
   status r \<noteq> 401 \<or> \<not> truthy_str (OPENAI_CODEX_AUTH W) \<or> refreshAccessToken W = Inr None \<Longrightarrow>
     try_send W args base t i sent =
       (upstream_failure r, sent @ [upstream_request W args base t i])"
  by (auto simp: try_send_def fetch_def)

lemma try_send_retry:
  assumes "transport W sent (upstream_request W args base t i) = Inr r"
    and "status r = 401" and "truthy_str (OPENAI_CODEX_AUTH W)"
    and "refreshAccessToken W = Inr (Some tk)"
    and "q2 = upstream_request W args base (access_token tk) (str_or (account_id tk) i)"
  shows "try_send W args base t i sent =
     (case transport W (sent @ [upstream_request W args base t i]) q2 of
        Inl e \<Rightarrow> Inl e
      | Inr r2 \<Rightarrow> if ok r2 then Inr \<lparr>response = Some r2, error = None\<rparr> else upstream_failure r,
      sent @ [upstream_request W args base t i, q2])"
  using assms by (simp add: try_send_def fetch_def success_def ok_def split: sum.splits)

lemma try_send_shape:
  "try_send W args base t i sent = (Inr res, sent') \<Longrightarrow>
     (\<exists>r. res = \<lparr>response = Some r, error = None\<rparr>) \<or>
     (\<exists>er m. res = \<lparr>response = None, error = Some er\<rparr> \<and>
        resp_body er = JsonBody (JObj [(''error'', JObj [(''message'', m)])]))"
  unfolding try_send_def fetch_def success_def
  by (auto split: sum.splits if_splits option.splits dest!: upstream_failure_shape)

lemma try_send_sends:
  "try_send W args base t i sent = (res, sent') \<Longrightarrow>
     (\<exists>q1. sent' = sent @ [q1] \<and> req_method q1 = ''POST'') \<or>
     (\<exists>q1 q2 r tk. sent' = sent @ [q1, q2] \<and> req_method q1 = ''POST'' \<and> req_method q2 = ''POST'' \<and>
        q1 = upstream_request W args base t i \<and>
        transport W sent q1 = Inr r \<and> status r = 401 \<and> truthy_str (OPENAI_CODEX_AUTH W) \<and>
        refreshAccessToken W = Inr (Some tk))"
  unfolding try_send_def fetch_def
  by (auto simp: upstream_request_method split: sum.splits if_splits option.splits)

lemma run_sent:
  "snd (startUpstreamRequest W args) = [] \<or>
   snd (startUpstreamRequest W args) = [instructions_request] \<or>
   (\<exists>a base sent0.
      getRefreshedAuth W = Inr a \<and> getBaseInstructions W [] = (base, sent0) \<and>
      sent0 = [instructions_request] \<and>
      snd (startUpstreamRequest W args) =
        snd (try_send W args base (js_string (accessToken a)) (js_string (accountId a)) sent0))"
proof -
  obtain base sent0 where b: "getBaseInstructions W [] = (base, sent0)"
    by (cases "getBaseInstructions W []")
  have s0: "sent0 = [instructions_request]"
    using getBaseInstructions_sent [of W "[]"] b by simp
  show ?thesis
    unfolding startUpstreamRequest_def b s0
    by (auto split: sum.splits option.splits prod.splits)
qed

lemma fetch_calls_bound: "length (snd (startUpstreamRequest W args)) \<le> 3"
proof -
  from run_sent [of W args] show ?thesis
  proof (elim disjE exE conjE)
    fix a base sent0
    assume s0: "sent0 = [instructions_request]"
      and run: "snd (startUpstreamRequest W args) =
        snd (try_send W args base (js_string (accessToken a)) (js_string (accountId a)) sent0)"
    obtain res sent where t:
      "try_send W args base (js_string (accessToken a)) (js_string (accountId a)) sent0 = (res, sent)"
      by (cases "try_send W args base (js_string (accessToken a)) (js_string (accountId a)) sent0")
    from try_send_sends [OF t] have "length sent \<le> 3"
      unfolding s0 by auto
    with run t show ?thesis by simp
  qed simp_all
qed

lemmas try_defs =
  try_send_def fetch_def ok_def upstream_failure_def upstream_message_def errorBody_def
  new_error_response_def failure_def success_def error_response_def

text \<open>A run in an example world with credentials, up to its sends.\<close>

lemma example_world_run:
  assumes "W = example_world (Inr example_auth) rf (prompt_reply # rest)"
  shows "startUpstreamRequest W example_options =
     (case try_send W example_options ''You are Codex.'' ''tok'' ''acct'' [instructions_request] of
        (Inl e, sent) \<Rightarrow>
          (Inr (failure 502 (JStr (''Upstream ChatGPT request failed: '' @ error_text W e))), sent)
      | (Inr r, sent) \<Rightarrow> (Inr r, sent))"
proof -
  have a: "getRefreshedAuth W = Inr example_auth"
    unfolding assms by (simp add: example_world_def)
  have c: "truthy_str (accessToken example_auth)" "truthy_str (accountId example_auth)"
    by (simp_all add: example_auth_def)
  have s: "shaped W example_options"
    unfolding assms by (rule example_shaped)
  have b: "getBaseInstructions W [] = (''You are Codex.'', [instructions_request])"
    unfolding assms by (rule example_base)
  from startUpstreamRequest_shaped [OF a c s b] show ?thesis
    by (simp add: example_auth_def js_string_def)
qed

text \<open>What lines 90 to 108 throw leaves the function, after the fetch of the instructions.\<close>

lemma body_throws_escapes:
  assumes "getRefreshedAuth W = Inr a"
    and "truthy_str (accessToken a)" and "truthy_str (accountId a)"
    and "isOllamaRequest args \<or> serialisable (JArr (inputItems args))"
    and "getBaseInstructions W [] = (base, sent0)"
    and "body_throws W args base = Some e"
  shows "startUpstreamRequest W args = (Inl e, sent0)"
proof (cases "isOllamaRequest args")
  case True
  with assms show ?thesis
    by (simp add: startUpstreamRequest_def)
next
  case False
  with assms(4) have "serialisable (JArr (inputItems args))"
    by simp
  from generateSessionId_value [OF this] False assms show ?thesis
    by (simp add: startUpstreamRequest_def)
qed

text \<open>
  After a 401 with the refresh configured, a refresh that yields nothing or a retry that
  is refused again ends in the failure the specification describes, whenever the first
  response is one the program mirrors.
\<close>

lemma unrecoverable_401_mirrors:
  assumes "getRefreshedAuth W = Inr a"
    and "truthy_str (accessToken a)" and "truthy_str (accountId a)"
    and "shaped W args"
    and "getBaseInstructions W [] = (base, sent0)"
    and "q1 = upstream_request W args base (js_string (accessToken a)) (js_string (accountId a))"
    and "transport W sent0 q1 = Inr r1"
    and "status r1 = 401"
    and "truthy_str (OPENAI_CODEX_AUTH W)"
    and "refreshAccessToken W = Inr None \<or>
         (\<exists>t r2. refreshAccessToken W = Inr (Some t) \<and>
            transport W (sent0 @ [q1])
              (upstream_request W args base (access_token t)
                 (str_or (account_id t) (js_string (accountId a)))) = Inr r2 \<and> \<not> ok r2)"
    and "mirrorable r1"
  shows "\<exists>res. fst (startUpstreamRequest W args) = Inr res \<and> refusal 401 (message_spec r1) res"
proof -
  from mirrored_failure [OF assms(11)] assms(8) obtain res where
    res: "upstream_failure r1 = Inr res" "refusal 401 (message_spec r1) res"
    by auto
  have notok: "\<not> ok r1"
    using assms(8) by (simp add: ok_def)
  note first = assms(7) [unfolded assms(6)]
  from assms(10) have
    "fst (try_send W args base (js_string (accessToken a)) (js_string (accountId a)) sent0) =
       upstream_failure r1"
  proof
    assume "refreshAccessToken W = Inr None"
    with try_send_no_retry [OF first notok] show ?thesis
      by simp
  next
    assume "\<exists>t r2. refreshAccessToken W = Inr (Some t) \<and>
      transport W (sent0 @ [q1])
        (upstream_request W args base (access_token t)
           (str_or (account_id t) (js_string (accountId a)))) = Inr r2 \<and> \<not> ok r2"
    then obtain t r2 where t: "refreshAccessToken W = Inr (Some t)"
      and r2: "transport W (sent0 @ [q1])
        (upstream_request W args base (access_token t)
           (str_or (account_id t) (js_string (accountId a)))) = Inr r2" "\<not> ok r2"
      by blast
    from try_send_retry [OF first assms(8,9) t refl] r2 show ?thesis
      unfolding assms(6) by simp
  qed
  with res show ?thesis
    unfolding startUpstreamRequest_shaped [OF assms(1-5)]
    by (auto split: prod.splits)
qed

section \<open>Claims\<close>

text \<open>
  Claim C1. When the first send is answered 401, the refresh is configured,
  \<open>refreshAccessToken\<close> yields new credentials and the one retried request is answered
  2xx, the result is the success holding the retry's response; the 401 response is not
  what the caller gets. A dispatch that sends is one whose request was shaped.
\<close>

theorem refresh_retry_success:
  assumes "getRefreshedAuth W = Inr a"
    and "truthy_str (accessToken a)" and "truthy_str (accountId a)"
    and "shaped W args"
    and "getBaseInstructions W [] = (base, sent0)"
    and "transport W sent0
           (upstream_request W args base (js_string (accessToken a)) (js_string (accountId a))) = Inr r1"
    and "status r1 = 401"
    and "truthy_str (OPENAI_CODEX_AUTH W)"
    and "refreshAccessToken W = Inr (Some t)"
    and "transport W
           (sent0 @ [upstream_request W args base (js_string (accessToken a)) (js_string (accountId a))])
           (upstream_request W args base (access_token t)
              (str_or (account_id t) (js_string (accountId a)))) = Inr r2"
    and "ok r2"
  shows "fst (startUpstreamRequest W args) = Inr \<lparr>response = Some r2, error = None\<rparr> \<and> r2 \<noteq> r1"
proof -
  have "r2 \<noteq> r1"
    using assms(7,11) by (auto simp: ok_def)
  moreover have "fst (startUpstreamRequest W args) = Inr \<lparr>response = Some r2, error = None\<rparr>"
    unfolding startUpstreamRequest_shaped [OF assms(1-5)] try_send_def fetch_def success_def
    using assms(6-11) by (simp add: ok_def)
  ultimately show ?thesis
    by simp
qed

theorem refresh_retry_success_witness:
  "fst (startUpstreamRequest world_retry_ok example_options) =
     Inr \<lparr>response = Some stream_reply, error = None\<rparr> \<and> stream_reply \<noteq> expired_reply"
  using refresh_retry_success [of world_retry_ok example_auth example_options "''You are Codex.''"
      "[instructions_request]" expired_reply refreshed_tokens stream_reply]
  by (simp add: world_retry_ok_def example_base example_shaped) (simp add: example_defs ok_def)

text \<open>
  Claim C2. When the credential accessor yields no access token or no account
  identifier, the result is the error with status 401 and the message
  \<open>Missing ChatGPT credentials. Run 'codex login' first\<close>, and no request has been issued.
\<close>

theorem missing_credentials_no_request:
  assumes "getRefreshedAuth W = Inr a"
    and "\<not> truthy_str (accessToken a) \<or> \<not> truthy_str (accountId a)"
  shows "startUpstreamRequest W args =
           (Inr (failure 401 (JStr ''Missing ChatGPT credentials. Run 'codex login' first'')), [])
         \<and> (\<exists>er. fst (startUpstreamRequest W args) = Inr \<lparr>response = None, error = Some er\<rparr> \<and>
               status er = 401 \<and>
               resp_body er =
                 JsonBody (JObj [(''error'', JObj [(''message'',
                   JStr ''Missing ChatGPT credentials. Run 'codex login' first'')])]))"
  using assms unfolding startUpstreamRequest_def missing_credentials_def
  by (auto simp: failure_def error_response_def)

theorem missing_credentials_no_request_witness:
  "startUpstreamRequest world_no_credentials example_options =
     (Inr (failure 401 (JStr ''Missing ChatGPT credentials. Run 'codex login' first'')), [])
   \<and> (\<exists>er. fst (startUpstreamRequest world_no_credentials example_options) =
              Inr \<lparr>response = None, error = Some er\<rparr> \<and> status er = 401)"
proof -
  have "getRefreshedAuth world_no_credentials = Inr no_token"
    and "\<not> truthy_str (accessToken no_token) \<or> \<not> truthy_str (accountId no_token)"
    by (simp_all add: world_no_credentials_def example_world_def no_token_def)
  from missing_credentials_no_request [OF this, of example_options] show ?thesis
    by blast
qed

text \<open>
  Claim C3. After a 401 with the refresh configured and a refresh that yields nothing,
  the result should carry the status 401 and the message of the 401 body. On a 401 whose
  body is the JSON text \<open>null\<close> the read \<open>errorBody.error\<close> throws inside the
  \<open>try\<close> block, and the result carries the status 502 and the text of that
  \<open>TypeError\<close> instead.
\<close>

theorem null_body_401_becomes_502:
  "fst (startUpstreamRequest world_null_401 example_options) =
     Inr (failure 502
            (JStr ''Upstream ChatGPT request failed: Cannot read properties of null (reading 'error')''))"
  unfolding example_world_run [OF world_null_401_def]
  by (simp add: world_null_401_def try_defs example_defs)

theorem null_body_401_becomes_502_witness:
  "\<exists>er. fst (startUpstreamRequest world_null_401 example_options) =
          Inr \<lparr>response = None, error = Some er\<rparr> \<and> status er = 502"
  using null_body_401_becomes_502
  by (simp add: failure_def error_response_def)

text \<open>
  Claim C4. A run issues at most two sends of the shaped request, and two only when the
  first was answered 401 and the refresh is configured.
\<close>

theorem at_most_two_sends:
  "length (upstream_sends (snd (startUpstreamRequest W args))) \<le> 2 \<and>
   (length (upstream_sends (snd (startUpstreamRequest W args))) = 2 \<longrightarrow>
      truthy_str (OPENAI_CODEX_AUTH W) \<and>
      (\<exists>a base sent0 r.
         getRefreshedAuth W = Inr a \<and> getBaseInstructions W [] = (base, sent0) \<and>
         transport W sent0
           (upstream_request W args base (js_string (accessToken a)) (js_string (accountId a))) = Inr r \<and>
         status r = 401))"
proof -
  from run_sent [of W args] show ?thesis
  proof (elim disjE exE conjE)
    fix a base sent0
    assume a: "getRefreshedAuth W = Inr a"
      and b: "getBaseInstructions W [] = (base, sent0)"
      and s0: "sent0 = [instructions_request]"
      and run: "snd (startUpstreamRequest W args) =
        snd (try_send W args base (js_string (accessToken a)) (js_string (accountId a)) sent0)"
    obtain res sent where t:
      "try_send W args base (js_string (accessToken a)) (js_string (accountId a)) sent0 = (res, sent)"
      by (cases "try_send W args base (js_string (accessToken a)) (js_string (accountId a)) sent0")
    have snd_eq: "snd (startUpstreamRequest W args) = sent"
      using run t by simp
    from try_send_sends [OF t] show ?thesis
    proof
      assume "\<exists>q1. sent = sent0 @ [q1] \<and> req_method q1 = ''POST''"
      then show ?thesis
        unfolding snd_eq s0 by (auto simp: upstream_sends_def instructions_request_def)
    next
      assume "\<exists>q1 q2 r tk. sent = sent0 @ [q1, q2] \<and> req_method q1 = ''POST'' \<and>
        req_method q2 = ''POST'' \<and>
        q1 = upstream_request W args base (js_string (accessToken a)) (js_string (accountId a)) \<and>
        transport W sent0 q1 = Inr r \<and> status r = 401 \<and> truthy_str (OPENAI_CODEX_AUTH W) \<and>
        refreshAccessToken W = Inr (Some tk)"
      then show ?thesis
        unfolding snd_eq using a b by (auto simp: upstream_sends_def instructions_request_def s0)
    qed
  qed (simp_all add: upstream_sends_def instructions_request_def)
qed

theorem at_most_two_sends_witness:
  "length (upstream_sends (snd (startUpstreamRequest world_retry_ok example_options))) = 2 \<and>
   truthy_str (OPENAI_CODEX_AUTH world_retry_ok)"
  using at_most_two_sends [of world_retry_ok example_options]
  unfolding example_world_run [OF world_retry_ok_def]
  by (simp add: world_retry_ok_def try_defs example_defs upstream_sends_def
        upstream_request_def instructions_request_def)

text \<open>
  Claim C5. When the first send throws or rejects, the result is the error response with
  status 502 whose message is \<open>Upstream ChatGPT request failed\<close>, a colon and the text
  of what was thrown.
\<close>

theorem transport_failure_502:
  assumes "getRefreshedAuth W = Inr a"
    and "truthy_str (accessToken a)" and "truthy_str (accountId a)"
    and "shaped W args"
    and "getBaseInstructions W [] = (base, sent0)"
    and "transport W sent0
           (upstream_request W args base (js_string (accessToken a)) (js_string (accountId a))) = Inl e"
  shows "\<exists>er. fst (startUpstreamRequest W args) = Inr \<lparr>response = None, error = Some er\<rparr> \<and>
           status er = 502 \<and>
           resp_body er =
             JsonBody (JObj [(''error'', JObj [(''message'',
               JStr (''Upstream ChatGPT request failed: '' @ error_text W e))])])"
  unfolding startUpstreamRequest_shaped [OF assms(1-5)] try_send_def fetch_def
  using assms(6) by (simp add: failure_def error_response_def)

theorem transport_failure_502_witness:
  "\<exists>er. fst (startUpstreamRequest world_unreachable example_options) =
          Inr \<lparr>response = None, error = Some er\<rparr> \<and>
        status er = 502 \<and>
        resp_body er =
          JsonBody (JObj [(''error'', JObj [(''message'',
            JStr ''Upstream ChatGPT request failed: getaddrinfo ENOTFOUND chatgpt.com'')])])"
  using transport_failure_502 [of world_unreachable example_auth example_options "''You are Codex.''"
      "[instructions_request]" "ErrorObject ''getaddrinfo ENOTFOUND chatgpt.com''"]
  by (simp add: world_unreachable_def example_base example_shaped) (simp add: example_defs)

text \<open>
  Claim C6, as the code has it. When the credential accessor returns and lines 86 to 108
  return, the run returns a pair with exactly one component set, and an error component
  has a body \<open>{"error": {"message": m}}\<close>. Missing credentials give status 401 with the
  fixed message. A first send or a retried send that rejects gives status 502 with
  \<open>Upstream ChatGPT request failed: \<close> and the error text. A 2xx answer of either is
  returned as it is. Every other answer that the program mirrors gives the status of the
  first response with the message of its body, in the value its JSON text denotes, or
  \<open>Upstream error\<close>.
\<close>

theorem result_shape:
  assumes "getRefreshedAuth W = Inr a"
    and "shaped W args"
    and "getBaseInstructions W [] = (base, sent0)"
    and "q1 = upstream_request W args base (js_string (accessToken a)) (js_string (accountId a))"
  shows "\<exists>res sent.
      startUpstreamRequest W args = (Inr res, sent) \<and>
      (response res = None) \<noteq> (error res = None) \<and>
      (\<forall>er. error res = Some er \<longrightarrow>
         (\<exists>m. resp_body er = JsonBody (JObj [(''error'', JObj [(''message'', m)])]))) \<and>
      (\<not> truthy_str (accessToken a) \<or> \<not> truthy_str (accountId a) \<longrightarrow>
         refusal 401 (JStr ''Missing ChatGPT credentials. Run 'codex login' first'') res) \<and>
      (truthy_str (accessToken a) \<and> truthy_str (accountId a) \<longrightarrow>
         (\<forall>e. transport W sent0 q1 = Inl e \<longrightarrow>
            refusal 502 (JStr (''Upstream ChatGPT request failed: '' @ error_text W e)) res) \<and>
         (\<forall>r. transport W sent0 q1 = Inr r \<and> ok r \<longrightarrow>
            res = \<lparr>response = Some r, error = None\<rparr>) \<and>
         (\<forall>r. transport W sent0 q1 = Inr r \<and> \<not> ok r \<and> mirrorable r \<and>
              (status r \<noteq> 401 \<or> \<not> truthy_str (OPENAI_CODEX_AUTH W) \<or>
               refreshAccessToken W = Inr None) \<longrightarrow>
            refusal (status r) (message_spec r) res) \<and>
         (\<forall>r t q2.
            transport W sent0 q1 = Inr r \<and> status r = 401 \<and> truthy_str (OPENAI_CODEX_AUTH W) \<and>
            refreshAccessToken W = Inr (Some t) \<and>
            q2 = upstream_request W args base (access_token t)
                   (str_or (account_id t) (js_string (accountId a))) \<longrightarrow>
            (\<forall>e. transport W (sent0 @ [q1]) q2 = Inl e \<longrightarrow>
               refusal 502 (JStr (''Upstream ChatGPT request failed: '' @ error_text W e)) res) \<and>
            (\<forall>r2. transport W (sent0 @ [q1]) q2 = Inr r2 \<and> ok r2 \<longrightarrow>
               res = \<lparr>response = Some r2, error = None\<rparr>) \<and>
            (\<forall>r2. transport W (sent0 @ [q1]) q2 = Inr r2 \<and> \<not> ok r2 \<and> mirrorable r \<longrightarrow>
               refusal 401 (message_spec r) res)))"
proof (cases "\<not> truthy_str (accessToken a) \<or> \<not> truthy_str (accountId a)")
  case True
  with assms(1) have "startUpstreamRequest W args =
      (Inr (failure 401 (JStr ''Missing ChatGPT credentials. Run 'codex login' first'')), [])"
    unfolding startUpstreamRequest_def missing_credentials_def by auto
  with True show ?thesis
    by (auto simp: failure_def error_response_def refusal_def)
next
  case False
  then have creds: "truthy_str (accessToken a)" "truthy_str (accountId a)"
    by simp_all
  let ?t = "js_string (accessToken a)" and ?i = "js_string (accountId a)"
  define finish where "finish = (\<lambda>out. case out of
      Inl e \<Rightarrow> failure 502 (JStr (''Upstream ChatGPT request failed: '' @ error_text W e))
    | Inr res \<Rightarrow> res)"
  obtain out sent where t: "try_send W args base ?t ?i sent0 = (out, sent)"
    by (cases "try_send W args base ?t ?i sent0")
  have run: "startUpstreamRequest W args = (Inr (finish out), sent)"
    unfolding startUpstreamRequest_shaped [OF assms(1) creds assms(2,3)] t finish_def
    by (simp split: sum.splits)
  have gateway: "refusal 502 (JStr (''Upstream ChatGPT request failed: '' @ error_text W e))
      (finish (Inl e))" for e
    by (simp add: finish_def refusal_def failure_def error_response_def)
  have mirror: "refusal (status r) (message_spec r) (finish (upstream_failure r))"
    if "mirrorable r" for r
    using mirrored_failure [OF that] by (auto simp: finish_def)
  have shape: "(response (finish out) = None) \<noteq> (error (finish out) = None) \<and>
      (\<forall>er. error (finish out) = Some er \<longrightarrow>
         (\<exists>m. resp_body er = JsonBody (JObj [(''error'', JObj [(''message'', m)])])))"
  proof (cases out)
    case (Inl e)
    then show ?thesis
      by (simp add: finish_def failure_def error_response_def)
  next
    case (Inr res)
    with t have "try_send W args base ?t ?i sent0 = (Inr res, sent)"
      by simp
    from try_send_shape [OF this] Inr show ?thesis
      by (auto simp: finish_def)
  qed
  have first_throws: "refusal 502 (JStr (''Upstream ChatGPT request failed: '' @ error_text W e))
      (finish out)" if "transport W sent0 q1 = Inl e" for e
  proof -
    from t that have "out = Inl e"
      unfolding assms(4) try_send_def fetch_def by simp
    with gateway [of e] show ?thesis
      by simp
  qed
  have first_ok: "finish out = \<lparr>response = Some r, error = None\<rparr>"
    if "transport W sent0 q1 = Inr r" "ok r" for r
  proof -
    from t that have "out = Inr \<lparr>response = Some r, error = None\<rparr>"
      unfolding assms(4) try_send_def fetch_def success_def by simp
    then show ?thesis
      by (simp add: finish_def)
  qed
  have no_retry: "refusal (status r) (message_spec r) (finish out)"
    if "transport W sent0 q1 = Inr r" "\<not> ok r" "mirrorable r"
      "status r \<noteq> 401 \<or> \<not> truthy_str (OPENAI_CODEX_AUTH W) \<or> refreshAccessToken W = Inr None"
    for r
  proof -
    have "fst (try_send W args base ?t ?i sent0) = upstream_failure r"
      using that(1,2,4) unfolding assms(4) try_send_def fetch_def
      by (cases "status r = 401 \<and> truthy_str (OPENAI_CODEX_AUTH W)") auto
    with t have "out = upstream_failure r"
      by simp
    with mirror [OF that(3)] show ?thesis
      by simp
  qed
  have retry: "(\<forall>e. transport W (sent0 @ [q1]) q2 = Inl e \<longrightarrow>
         refusal 502 (JStr (''Upstream ChatGPT request failed: '' @ error_text W e)) (finish out)) \<and>
      (\<forall>r2. transport W (sent0 @ [q1]) q2 = Inr r2 \<and> ok r2 \<longrightarrow>
         finish out = \<lparr>response = Some r2, error = None\<rparr>) \<and>
      (\<forall>r2. transport W (sent0 @ [q1]) q2 = Inr r2 \<and> \<not> ok r2 \<and> mirrorable r \<longrightarrow>
         refusal 401 (message_spec r) (finish out))"
    if "transport W sent0 q1 = Inr r" "status r = 401" "truthy_str (OPENAI_CODEX_AUTH W)"
      "refreshAccessToken W = Inr (Some tk)"
      "q2 = upstream_request W args base (access_token tk) (str_or (account_id tk) ?i)"
    for r tk q2
  proof -
    have m: "mirrorable r \<Longrightarrow> refusal 401 (message_spec r) (finish (upstream_failure r))"
      using mirror [of r] that(2) by simp
    have "fst (try_send W args base ?t ?i sent0) = (case transport W (sent0 @ [q1]) q2 of
        Inl e \<Rightarrow> Inl e
      | Inr r2 \<Rightarrow> if ok r2 then Inr \<lparr>response = Some r2, error = None\<rparr> else upstream_failure r)"
      using that unfolding assms(4) try_send_def fetch_def success_def
      by (auto simp: ok_def split: sum.splits)
    with t have "out = (case transport W (sent0 @ [q1]) q2 of
        Inl e \<Rightarrow> Inl e
      | Inr r2 \<Rightarrow> if ok r2 then Inr \<lparr>response = Some r2, error = None\<rparr> else upstream_failure r)"
      by simp
    with gateway m show ?thesis
      by (auto simp: finish_def split: sum.splits)
  qed
  have c1: "(response (finish out) = None) \<noteq> (error (finish out) = None)"
    and c2: "\<forall>er. error (finish out) = Some er \<longrightarrow>
         (\<exists>m. resp_body er = JsonBody (JObj [(''error'', JObj [(''message'', m)])]))"
    using shape by simp_all
  have c3: "\<not> truthy_str (accessToken a) \<or> \<not> truthy_str (accountId a) \<longrightarrow>
      refusal 401 (JStr ''Missing ChatGPT credentials. Run 'codex login' first'') (finish out)"
    using creds by simp
  have c4: "\<forall>e. transport W sent0 q1 = Inl e \<longrightarrow>
      refusal 502 (JStr (''Upstream ChatGPT request failed: '' @ error_text W e)) (finish out)"
    using first_throws by blast
  have c5: "\<forall>r. transport W sent0 q1 = Inr r \<and> ok r \<longrightarrow>
      finish out = \<lparr>response = Some r, error = None\<rparr>"
    using first_ok by blast
  have c6: "\<forall>r. transport W sent0 q1 = Inr r \<and> \<not> ok r \<and> mirrorable r \<and>
        (status r \<noteq> 401 \<or> \<not> truthy_str (OPENAI_CODEX_AUTH W) \<or>
         refreshAccessToken W = Inr None) \<longrightarrow>
      refusal (status r) (message_spec r) (finish out)"
    using no_retry by blast
  have c7: "\<forall>r t q2.
      transport W sent0 q1 = Inr r \<and> status r = 401 \<and> truthy_str (OPENAI_CODEX_AUTH W) \<and>
      refreshAccessToken W = Inr (Some t) \<and>
      q2 = upstream_request W args base (access_token t)
             (str_or (account_id t) (js_string (accountId a))) \<longrightarrow>
      (\<forall>e. transport W (sent0 @ [q1]) q2 = Inl e \<longrightarrow>
         refusal 502 (JStr (''Upstream ChatGPT request failed: '' @ error_text W e)) (finish out)) \<and>
      (\<forall>r2. transport W (sent0 @ [q1]) q2 = Inr r2 \<and> ok r2 \<longrightarrow>
         finish out = \<lparr>response = Some r2, error = None\<rparr>) \<and>
      (\<forall>r2. transport W (sent0 @ [q1]) q2 = Inr r2 \<and> \<not> ok r2 \<and> mirrorable r \<longrightarrow>
         refusal 401 (message_spec r) (finish out))"
    using retry by blast
  note c8 = impI [of "truthy_str (accessToken a) \<and> truthy_str (accountId a)",
      OF conjI [OF c4 conjI [OF c5 conjI [OF c6 c7]]]]
  show ?thesis
    unfolding run using c1 c2 c3 c8
    by (intro exI [of _ "finish out"] exI [of _ sent] conjI) (rule refl | assumption)+
qed

theorem result_shape_witness:
  "\<exists>res sent. startUpstreamRequest world_numeric_message example_options = (Inr res, sent) \<and>
     refusal 500 (JNum 42) res"
proof -
  let ?r = "reply 500 (JsonBody (JObj [(''error'', JObj [(''message'', JNum 42)])]))"
  let ?q = "upstream_request world_numeric_message example_options ''You are Codex.''
              (js_string (accessToken example_auth)) (js_string (accountId example_auth))"
  have a: "getRefreshedAuth world_numeric_message = Inr example_auth"
    by (simp add: world_numeric_message_def example_world_def)
  have s: "shaped world_numeric_message example_options"
    unfolding world_numeric_message_def by (rule example_shaped)
  have b: "getBaseInstructions world_numeric_message [] =
             (''You are Codex.'', [instructions_request])"
    unfolding world_numeric_message_def by (rule example_base)
  have creds: "truthy_str (accessToken example_auth) \<and> truthy_str (accountId example_auth)"
    by (simp add: example_auth_def)
  have first: "transport world_numeric_message [instructions_request] ?q = Inr ?r"
    by (simp add: world_numeric_message_def example_defs)
  have r: "\<not> ok ?r" "mirrorable ?r" "status ?r \<noteq> 401" "status ?r = 500"
    "message_spec ?r = JNum 42"
    by (simp_all add: ok_def mirrorable_def message_spec_def reply_def)
  from result_shape [OF a s b refl] obtain res sent where
    run: "startUpstreamRequest world_numeric_message example_options = (Inr res, sent)"
    and table: "truthy_str (accessToken example_auth) \<and> truthy_str (accountId example_auth) \<longrightarrow>
      (\<forall>e. transport world_numeric_message [instructions_request] ?q = Inl e \<longrightarrow>
         refusal 502 (JStr (''Upstream ChatGPT request failed: '' @
           error_text world_numeric_message e)) res) \<and>
      (\<forall>r. transport world_numeric_message [instructions_request] ?q = Inr r \<and> ok r \<longrightarrow>
         res = \<lparr>response = Some r, error = None\<rparr>) \<and>
      (\<forall>r. transport world_numeric_message [instructions_request] ?q = Inr r \<and> \<not> ok r \<and>
           mirrorable r \<and>
           (status r \<noteq> 401 \<or> \<not> truthy_str (OPENAI_CODEX_AUTH world_numeric_message) \<or>
            refreshAccessToken world_numeric_message = Inr None) \<longrightarrow>
         refusal (status r) (message_spec r) res)"
    by (elim exE conjE) (rule that, assumption, blast)
  from table creds first r have "refusal (status ?r) (message_spec ?r) res"
    by blast
  with run r show ?thesis
    by auto
qed

text \<open>
  Claim C6 as stated fails in four ways. A 500 whose body is
  \<open>{"error": {"message": 42}}\<close> comes back with the number 42 as its message, not a
  string. A rejection of the credential accessor, a payload that holds a \<open>BigInt\<close> and
  a throw of \<open>normalizeModelName\<close> all happen before the \<open>try\<close> block and leave the
  function as they are.
\<close>

theorem result_shape_counterexample:
  "fst (startUpstreamRequest world_numeric_message example_options) =
     Inr \<lparr>response = None,
          error = Some \<lparr>status = 500, statusText = [],
                       resp_headers = [(''Content-Type'', ''application/json'')],
                       resp_body = JsonBody (JObj [(''error'', JObj [(''message'', JNum 42)])])\<rparr>\<rparr>
   \<and> fst (startUpstreamRequest world_rejecting_auth example_options) =
       Inl (ErrorObject ''KV unavailable'')
   \<and> fst (startUpstreamRequest world_retry_ok bigint_options) = Inl (PlatformError NotSerialisable)
   \<and> fst (startUpstreamRequest world_unknown_model example_options) =
       Inl (ErrorObject ''unknown model'')"
proof -
  have "fst (startUpstreamRequest world_numeric_message example_options) =
     Inr \<lparr>response = None,
          error = Some \<lparr>status = 500, statusText = [],
                       resp_headers = [(''Content-Type'', ''application/json'')],
                       resp_body = JsonBody (JObj [(''error'', JObj [(''message'', JNum 42)])])\<rparr>\<rparr>"
    unfolding example_world_run [OF world_numeric_message_def]
    by (simp add: world_numeric_message_def try_defs example_defs)
  moreover have "fst (startUpstreamRequest world_rejecting_auth example_options) =
      Inl (ErrorObject ''KV unavailable'')"
    by (simp add: startUpstreamRequest_def world_rejecting_auth_def example_world_def)
  moreover have "fst (startUpstreamRequest world_retry_ok bigint_options) =
      Inl (PlatformError NotSerialisable)"
  proof -
    have "getRefreshedAuth world_retry_ok = Inr example_auth"
      by (simp add: world_retry_ok_def example_world_def)
    moreover have "truthy_str (accessToken example_auth)" "truthy_str (accountId example_auth)"
      by (simp_all add: example_auth_def)
    moreover have "isOllamaRequest bigint_options \<or> serialisable (JArr (inputItems bigint_options))"
      by (simp add: isOllamaRequest_def bigint_options_def)
    moreover have "getBaseInstructions world_retry_ok [] =
        (''You are Codex.'', [instructions_request])"
      unfolding world_retry_ok_def by (rule example_base)
    moreover have "body_throws world_retry_ok bigint_options ''You are Codex.'' =
        Some (PlatformError NotSerialisable)"
      by (simp add: body_throws_def JSON_stringify_def isOllamaRequest_def bigint_options_def)
    ultimately show ?thesis
      by (simp add: body_throws_escapes)
  qed
  moreover have "fst (startUpstreamRequest world_unknown_model example_options) =
      Inl (ErrorObject ''unknown model'')"
  proof -
    have "getRefreshedAuth world_unknown_model = Inr example_auth"
      by (simp add: world_unknown_model_def example_world_def)
    moreover have "truthy_str (accessToken example_auth)" "truthy_str (accountId example_auth)"
      by (simp_all add: example_auth_def)
    moreover have "isOllamaRequest example_options \<or>
        serialisable (JArr (inputItems example_options))"
      by (simp add: example_options_def)
    moreover have "getBaseInstructions world_unknown_model [] =
        (''You are Codex.'', [instructions_request])"
      by (simp add: getBaseInstructions_def fetch_def body_text_def ok_def
            world_unknown_model_def example_defs)
    moreover have "body_throws world_unknown_model example_options ''You are Codex.'' =
        Some (ErrorObject ''unknown model'')"
      by (simp add: body_throws_def isOllamaRequest_def example_options_def
            world_unknown_model_def example_world_def)
    ultimately show ?thesis
      by (simp add: body_throws_escapes)
  qed
  ultimately show ?thesis
    by blast
qed

text \<open>
  Claim C7, as the code has it. On the primary backend the \<open>tool_choice\<close> field of the
  shaped body is the caller's value when that is \<open>"auto"\<close>, \<open>"none"\<close>, or any object
  or array, the well-formed function choices among them, and \<open>"auto"\<close> for every other
  value, also \<open>null\<close> and no value.
\<close>

theorem tool_choice_shaped:
  assumes "\<not> isOllamaRequest args"
  shows "body_field (upstream_request W args base token account) ''tool_choice'' =
           Some (case toolChoice args of
                   None \<Rightarrow> JStr ''auto''
                 | Some v \<Rightarrow>
                     if v = JStr ''auto'' \<or> v = JStr ''none'' \<or> is_structured v then v
                     else JStr ''auto'')
         \<and> (\<forall>v. toolChoice args = Some v \<and> well_formed_choice v \<longrightarrow>
               body_field (upstream_request W args base token account) ''tool_choice'' = Some v)"
proof -
  have field: "body_field (upstream_request W args base token account) ''tool_choice'' =
      Some (tool_choice_field (toolChoice args))"
    using assms
    by (simp add: body_field_def upstream_request_def requestBody_def primary_body_def)
  have code: "tool_choice_field tc =
      (case tc of
         None \<Rightarrow> JStr ''auto''
       | Some v \<Rightarrow>
           if v = JStr ''auto'' \<or> v = JStr ''none'' \<or> is_structured v then v else JStr ''auto'')"
    for tc
  proof (cases tc)
    case None
    then show ?thesis by (simp add: tool_choice_field_def)
  next
    case (Some v)
    then show ?thesis by (cases v) (auto simp: tool_choice_field_def)
  qed
  have wf: "well_formed_choice v \<Longrightarrow> is_structured v" for v
    by (cases v) (simp_all add: well_formed_choice_def)
  show ?thesis
    unfolding field code by (auto simp: wf)
qed

theorem tool_choice_shaped_witness:
  "body_field (upstream_request world_retry_ok (example_options\<lparr>toolChoice := Some foo_choice\<rparr>)
      ''You are Codex.'' ''tok'' ''acct'') ''tool_choice'' = Some foo_choice
   \<and> body_field (upstream_request world_retry_ok (example_options\<lparr>toolChoice := Some (JStr ''bogus'')\<rparr>)
      ''You are Codex.'' ''tok'' ''acct'') ''tool_choice'' = Some (JStr ''auto'')"
  using tool_choice_shaped [of "example_options\<lparr>toolChoice := Some foo_choice\<rparr>" world_retry_ok
      "''You are Codex.''" "''tok''" "''acct''"]
    tool_choice_shaped [of "example_options\<lparr>toolChoice := Some (JStr ''bogus'')\<rparr>" world_retry_ok
      "''You are Codex.''" "''tok''" "''acct''"]
  by (simp add: isOllamaRequest_def example_options_def foo_choice_def)

text \<open>
  Claim C7 as stated fails on the empty object \<open>{}\<close>: it is no well-formed function
  choice, the policy of the specification answers \<open>"auto"\<close>, and the shaped body
  carries \<open>{}\<close>.
\<close>

theorem tool_choice_counterexample:
  "\<not> well_formed_choice (JObj [])
   \<and> tool_choice_spec (Some (JObj [])) = JStr ''auto''
   \<and> body_field (upstream_request world_retry_ok (example_options\<lparr>toolChoice := Some (JObj [])\<rparr>)
        ''You are Codex.'' ''tok'' ''acct'') ''tool_choice'' = Some (JObj [])"
  by (simp add: well_formed_choice_def tool_choice_spec_def body_field_def upstream_request_def
        requestBody_def primary_body_def isOllamaRequest_def example_options_def
        tool_choice_field_def)

text \<open>
  Claim C8. On the primary backend the \<open>include\<close> array of the shaped body holds
  \<open>reasoning.encrypted_content\<close> once, unless the reasoning effort is exactly
  \<open>none\<close>, when it does not hold it.
\<close>

theorem include_shaped:
  assumes "\<not> isOllamaRequest args"
  shows "\<exists>incl. body_field (upstream_request W args base token account) ''include'' = Some (JArr incl) \<and>
           count_list incl (JStr ''reasoning.encrypted_content'') =
             (if \<exists>r. reasoningParam args = Some r \<and> effort r = Some ''none'' then 0 else 1)"
proof -
  have field: "body_field (upstream_request W args base token account) ''include'' =
      Some (JArr (map JStr (include_list (reasoningParam args))))"
    using assms
    by (simp add: body_field_def upstream_request_def requestBody_def primary_body_def)
  show ?thesis
    unfolding field by (auto simp: include_list_def split: option.splits)
qed

theorem include_shaped_witness:
  "(\<exists>incl. body_field (upstream_request world_retry_ok example_options
        ''You are Codex.'' ''tok'' ''acct'') ''include'' = Some (JArr incl) \<and>
      count_list incl (JStr ''reasoning.encrypted_content'') = 1)
   \<and> (\<exists>incl. body_field (upstream_request world_retry_ok
        (example_options\<lparr>reasoningParam := Some \<lparr>effort = Some ''none'', summary = None\<rparr>\<rparr>)
        ''You are Codex.'' ''tok'' ''acct'') ''include'' = Some (JArr incl) \<and>
      count_list incl (JStr ''reasoning.encrypted_content'') = 0)"
  using include_shaped [of example_options world_retry_ok "''You are Codex.''" "''tok''" "''acct''"]
    include_shaped [of "example_options\<lparr>reasoningParam := Some \<lparr>effort = Some ''none'', summary = None\<rparr>\<rparr>"
      world_retry_ok "''You are Codex.''" "''tok''" "''acct''"]
  by (simp add: isOllamaRequest_def example_options_def)

text \<open>
  Claim C9. For an input \<open>JSON.stringify\<close> accepts, the session fingerprint is the
  SHA-256 digest of the UTF-8 bytes of the instructions (the empty string when absent), a
  bar and the serialized input, each byte rendered as two lowercase hexadecimal digits;
  it is a function of these inputs alone and always 64 characters long. The digest is
  the one that maps \<open>abc\<close> to the value of FIPS 180-4, and the fingerprints of the empty
  input, without instructions and with the instructions \<open>abc\<close>, are the SHA-256 digests
  of \<open>|[]\<close> and \<open>abc|[]\<close>.
\<close>

theorem fingerprint:
  "(serialisable (JArr items) \<longrightarrow>
      generateSessionId W instr items =
        Inr (concat (map hex_byte_spec
               (sha256 (map of_char
                  ((case instr of None \<Rightarrow> [] | Some s \<Rightarrow> s) @ ''|'' @ stringify W (JArr items)))))))
   \<and> (\<forall>fp. generateSessionId W instr items = Inr fp \<longrightarrow> length fp = 64 \<and> list_all lower_hex fp)
   \<and> sha256 (map of_char ''abc'') =
       [0xBA, 0x78, 0x16, 0xBF, 0x8F, 0x01, 0xCF, 0xEA, 0x41, 0x41, 0x40, 0xDE, 0x5D, 0xAE, 0x22, 0x23,
        0xB0, 0x03, 0x61, 0xA3, 0x96, 0x17, 0x7A, 0x9C, 0xB4, 0x10, 0xFF, 0x61, 0xF2, 0x00, 0x15, 0xAD]
   \<and> (stringify W (JArr []) = ''[]'' \<longrightarrow>
        generateSessionId W None [] =
          Inr ''5feb6a3531244c00f6379279cde8ed00fa1309194de09f83c3b8ac2f28055d27'' \<and>
        generateSessionId W (Some ''abc'') [] =
          Inr ''418f106f2286cf93eacb308d34776b0b0809b3a2a7c405f5c3c0aac4f15fed77'')"
proof -
  have abc: "sha256 (map of_char ''abc'') =
       [0xBA, 0x78, 0x16, 0xBF, 0x8F, 0x01, 0xCF, 0xEA, 0x41, 0x41, 0x40, 0xDE, 0x5D, 0xAE, 0x22, 0x23,
        0xB0, 0x03, 0x61, 0xA3, 0x96, 0x17, 0x7A, 0x9C, 0xB4, 0x10, 0xFF, 0x61, 0xF2, 0x00, 0x15, 0xAD]"
    by code_simp
  have empty_input:
    "concat (map (\<lambda>b. padStart 2 CHR ''0'' (toString16 (unat b))) (sha256 (utf8 ''|[]''))) =
       ''5feb6a3531244c00f6379279cde8ed00fa1309194de09f83c3b8ac2f28055d27''"
    by code_simp
  have abc_input:
    "concat (map (\<lambda>b. padStart 2 CHR ''0'' (toString16 (unat b))) (sha256 (utf8 ''abc|[]''))) =
       ''418f106f2286cf93eacb308d34776b0b0809b3a2a7c405f5c3c0aac4f15fed77''"
    by code_simp
  have known: "generateSessionId W None [] =
        Inr ''5feb6a3531244c00f6379279cde8ed00fa1309194de09f83c3b8ac2f28055d27'' \<and>
      generateSessionId W (Some ''abc'') [] =
        Inr ''418f106f2286cf93eacb308d34776b0b0809b3a2a7c405f5c3c0aac4f15fed77''"
    if "stringify W (JArr []) = ''[]''"
    using that empty_input abc_input
    by (simp add: generateSessionId_def JSON_stringify_def str_or_def)
  from generateSessionId_value [of items W instr] generateSessionId_length [of W instr items]
    abc known
  show ?thesis
    by blast
qed

theorem fingerprint_witness:
  "generateSessionId world_retry_ok None [] =
     Inr ''5feb6a3531244c00f6379279cde8ed00fa1309194de09f83c3b8ac2f28055d27''
   \<and> length ''5feb6a3531244c00f6379279cde8ed00fa1309194de09f83c3b8ac2f28055d27'' = 64"
proof -
  have "stringify world_retry_ok (JArr []) = ''[]''"
    by (simp add: world_retry_ok_def example_world_def)
  with fingerprint [of "[]" world_retry_ok None] have
    "generateSessionId world_retry_ok None [] =
       Inr ''5feb6a3531244c00f6379279cde8ed00fa1309194de09f83c3b8ac2f28055d27''"
    by blast
  then show ?thesis
    by simp
qed

text \<open>
  Claim C10. On the alternate backend, too, a missing access token or account
  identifier ends the run with the 401 of the missing credentials before any request is
  issued, although the request shaped for that backend carries no header but
  \<open>Content-Type\<close>.
\<close>

theorem alternate_backend_requires_credentials:
  assumes "isOllamaRequest args"
    and "getRefreshedAuth W = Inr a"
    and "\<not> truthy_str (accessToken a) \<or> \<not> truthy_str (accountId a)"
  shows "startUpstreamRequest W args =
           (Inr (failure 401 (JStr ''Missing ChatGPT credentials. Run 'codex login' first'')), [])
         \<and> req_headers (upstream_request W args base token account) =
             [(''Content-Type'', ''application/json'')]
         \<and> (\<exists>er. fst (startUpstreamRequest W args) = Inr \<lparr>response = None, error = Some er\<rparr> \<and>
               status er = 401 \<and>
               resp_body er =
                 JsonBody (JObj [(''error'', JObj [(''message'',
                   JStr ''Missing ChatGPT credentials. Run 'codex login' first'')])]))"
  using assms
  unfolding startUpstreamRequest_def missing_credentials_def upstream_request_def
    request_headers_def
  by (auto simp: failure_def error_response_def)

theorem alternate_backend_requires_credentials_witness:
  "startUpstreamRequest world_no_credentials ollama_options =
     (Inr (failure 401 (JStr ''Missing ChatGPT credentials. Run 'codex login' first'')), [])
   \<and> req_headers (upstream_request world_no_credentials ollama_options ''You are Codex.'' ''tok'' ''acct'') =
       [(''Content-Type'', ''application/json'')]"
proof -
  have "isOllamaRequest ollama_options"
    by (simp add: isOllamaRequest_def ollama_options_def example_options_def)
  moreover have "getRefreshedAuth world_no_credentials = Inr no_token"
    and "\<not> truthy_str (accessToken no_token) \<or> \<not> truthy_str (accountId no_token)"
    by (simp_all add: world_no_credentials_def example_world_def no_token_def)
  ultimately show ?thesis
    using alternate_backend_requires_credentials
      [of ollama_options world_no_credentials no_token "''You are Codex.''" "''tok''" "''acct''"]
    by blast
qed

end
